theory Spec2Isabelle
  imports Main "HOL-Library.Word"
begin

section \<open>forecastio: a client of the forecast.io weather service\<close>

text \<open>
  The development follows \<^verbatim>\<open>forecastio.go\<close>. Go's machine types are words: \<^verbatim>\<open>int64\<close>
  is a 64-bit word read as two's complement, \<^verbatim>\<open>int\<close> is taken at its 64-bit size, and a
  \<^verbatim>\<open>float64\<close> is carried as its 64 bits (the library never computes with one, it only
  stores and prints them). Strings are byte lists.
\<close>

type_synonym int64 = "64 word"
type_synonym go_int = "64 word"
type_synonym float64 = "64 word"

subsection \<open>Errors, panics and observable events\<close>

text \<open>
  An \<^verbatim>\<open>error\<close> value is either made by \<^verbatim>\<open>errors.New\<close> in this package, or comes from a
  collaborator: the HTTP transport, the body reader, the JSON decoder or \<^verbatim>\<open>strconv\<close>.
\<close>

datatype error =
    errors_New string
  | TransportError string
  | ReadError string
  | JSONError string
  | NumError string

text \<open>A call either returns its results or panics at run time.\<close>

datatype 'a outcome = Returned 'a | Panicked string

text \<open>
  What a call does besides computing its results, in program order: the accesses to the
  fields of the connection, the mutex operations, and the calls to the collaborators.
\<close>

datatype field = F_apiKey | F_apiCalls | F_units

datatype event =
    Lock | Unlock | RLock | RUnlock
  | Load field | Store field
  | http_Get string
  | ioutil_ReadAll
  | Body_Close
  | json_Unmarshal string

subsection \<open>The connection\<close>

definition baseURL :: string where
  "baseURL = ''https://api.forecast.io/forecast''"

definition excludesSet :: "string set" where
  "excludesSet = {''currently'', ''minutely'', ''hourly'', ''daily'', ''alerts'', ''flags''}"

definition unitsSet :: "string set" where
  "unitsSet = {''us'', ''si'', ''ca'', ''uk'', ''auto''}"

record APIConn =
  apiKey :: string
  apiCalls :: go_int
  units :: string

definition NewConnection :: "string \<Rightarrow> APIConn" where
  "NewConnection key = \<lparr>apiKey = key, apiCalls = 0, units = ''auto''\<rparr>"

text \<open>
  The accessors and the setter return their Go result, the connection after the call and
  the events of the call.
\<close>

definition APICalls :: "APIConn \<Rightarrow> go_int \<times> APIConn \<times> event list" where
  "APICalls a = (apiCalls a, a, [RLock, Load F_apiCalls, RUnlock])"

definition Units :: "APIConn \<Rightarrow> string \<times> APIConn \<times> event list" where
  "Units a = (units a, a, [RLock, Load F_units, RUnlock])"

definition SetUnits :: "APIConn \<Rightarrow> string \<Rightarrow> error option \<times> APIConn \<times> event list" where
  "SetUnits a u =
     (if u \<in> unitsSet
      then (None, a\<lparr>units := u\<rparr>, [Lock, Store F_units, Unlock])
      else (Some (errors_New ''Invalid units requested''), a, [Lock, Unlock]))"

subsection \<open>Collaborators from the Go standard library\<close>

text \<open>
  \<^verbatim>\<open>time.Time\<close> holds a wall word, an extended seconds count and a location. A value
  made by \<^verbatim>\<open>time.Unix\<close> has no monotonic reading: its wall word is the nanoseconds, its
  extended word the seconds since year 1, and its location is Local. The zero value has
  all three fields zero, the nil location meaning UTC.
\<close>

datatype Location = UTC | Local

record Time =
  wall :: "64 word"
  ext :: int64
  loc :: Location

definition Time_zero :: Time where
  "Time_zero = \<lparr>wall = 0, ext = 0, loc = UTC\<rparr>"

definition unixToInternal :: int64 where
  "unixToInternal = 62135596800"

definition wallToInternal :: int64 where
  "wallToInternal = 59453308800"

definition hasMonotonic :: "64 word" where
  "hasMonotonic = push_bit 63 1"

text \<open>
  \<^verbatim>\<open>time.Unix(sec, nsec)\<close> for \<^verbatim>\<open>0 <= nsec < 1e9\<close>, the only range this package calls it
  in (it passes the constant 0), where the normalisation of the nanoseconds does nothing.
\<close>

definition time_Unix :: "int64 \<Rightarrow> 32 word \<Rightarrow> Time" where
  "time_Unix sec nsec = \<lparr>wall = ucast nsec, ext = sec + unixToInternal, loc = Local\<rparr>"

text \<open>The method \<^verbatim>\<open>Unix()\<close> of a time: the seconds since 1970, and its nanoseconds.\<close>

definition Time_sec :: "Time \<Rightarrow> int64" where
  "Time_sec t =
     (if and (wall t) hasMonotonic \<noteq> 0
      then wallToInternal + drop_bit 31 (push_bit 1 (wall t))
      else ext t)"

definition Time_Unix :: "Time \<Rightarrow> int64" where
  "Time_Unix t = Time_sec t - unixToInternal"

definition Time_Nanosecond :: "Time \<Rightarrow> 64 word" where
  "Time_Nanosecond t = and (wall t) (push_bit 30 1 - 1)"

text \<open>The verbs of \<^verbatim>\<open>fmt.Sprintf\<close>: \<^verbatim>\<open>%d\<close> prints a signed integer in decimal.\<close>

function show_nat :: "nat \<Rightarrow> string" where
  "show_nat n =
     (if n < 10 then [char_of (48 + n)]
      else show_nat (n div 10) @ [char_of (48 + n mod 10)])"
  by pat_completeness auto
termination
  by (relation "measure id") auto

definition fmt_d :: "int64 \<Rightarrow> string" where
  "fmt_d i = (if sint i < 0 then ''-'' @ show_nat (nat (- sint i)) else show_nat (nat (sint i)))"

fun strings_Join :: "string list \<Rightarrow> string \<Rightarrow> string" where
  "strings_Join [] sep = []"
| "strings_Join [x] sep = x"
| "strings_Join (x # y # rest) sep = x @ sep @ strings_Join (y # rest) sep"

text \<open>
  \<^verbatim>\<open>strconv.Atoi\<close> is \<^verbatim>\<open>ParseInt(s, 10, 0)\<close>: an optional sign, then \<^verbatim>\<open>ParseUint\<close> over
  the rest, which reads the bytes in order and stops at the first byte that is not a
  digit (a syntax error, value 0) or at the first overflow of 64 bits (a range error,
  the largest value). Out of the range of \<^verbatim>\<open>int\<close> the value is clamped.
\<close>

definition ErrSyntax :: error where
  "ErrSyntax = NumError ''invalid syntax''"

definition ErrRange :: error where
  "ErrRange = NumError ''value out of range''"

definition digit_val :: "char \<Rightarrow> nat option" where
  "digit_val c =
     (if 48 \<le> (of_char c :: nat) \<and> (of_char c :: nat) \<le> 57
      then Some (of_char c - 48) else None)"

definition maxUint64 :: nat where
  "maxUint64 = 2 ^ 64 - 1"

fun ParseUint_loop :: "string \<Rightarrow> nat \<Rightarrow> nat \<times> error option" where
  "ParseUint_loop [] n = (n, None)"
| "ParseUint_loop (c # cs) n =
     (case digit_val c of
        None \<Rightarrow> (0, Some ErrSyntax)
      | Some d \<Rightarrow>
          if n \<ge> maxUint64 div 10 + 1 then (maxUint64, Some ErrRange)
          else if n * 10 + d > maxUint64 then (maxUint64, Some ErrRange)
          else ParseUint_loop cs (n * 10 + d))"

definition ParseUint :: "string \<Rightarrow> nat \<times> error option" where
  "ParseUint s = (if s = [] then (0, Some ErrSyntax) else ParseUint_loop s 0)"

definition ParseInt_signed :: "bool \<Rightarrow> string \<Rightarrow> go_int \<times> error option" where
  "ParseInt_signed neg s =
     (case ParseUint s of (un, err) \<Rightarrow>
        if err \<noteq> None \<and> err \<noteq> Some ErrRange then (0, err)
        else if \<not> neg \<and> un \<ge> 2 ^ 63 then (2 ^ 63 - 1, Some ErrRange)
        else if neg \<and> un > 2 ^ 63 then (- (2 ^ 63), Some ErrRange)
        else (if neg then - of_nat un else of_nat un, None))"

definition strconv_Atoi :: "string \<Rightarrow> go_int \<times> error option" where
  "strconv_Atoi s =
     (case s of
        [] \<Rightarrow> (0, Some ErrSyntax)
      | c # cs \<Rightarrow>
          if c = CHR ''+'' then ParseInt_signed False cs
          else if c = CHR ''-'' then ParseInt_signed True cs
          else ParseInt_signed False s)"

subsection \<open>The forecast\<close>

text \<open>
  The structs of the package, field by field. Field names carry the struct as a prefix,
  since several structs have fields of the same name. The slices of the minutely, hourly
  and daily blocks and of the alerts hold pointers: a pointer is nil or the address of an
  object in the heap.
\<close>

datatype ptr = nil | Ptr nat

record currently =
  cur_TimeUnix :: int64
  cur_Time :: Time
  cur_Summary :: string
  cur_Icon :: string
  cur_NearestStormDistance :: go_int
  cur_NearestStormBearing :: go_int
  cur_PrecipitationIntensity :: float64
  cur_PrecipitationProbability :: float64
  cur_Temperature :: float64
  cur_ApparentTemperature :: float64
  cur_DewPoint :: float64
  cur_Humidity :: float64
  cur_WindSpeed :: float64
  cur_WindBearing :: float64
  cur_Visibility :: float64
  cur_CloudCover :: float64
  cur_Pressure :: float64
  cur_Ozone :: float64

record minuteData =
  min_TimeUnix :: int64
  min_Time :: Time
  min_PrecipitationIntensity :: float64
  min_PrecipitationProbability :: float64

record minutely =
  minutely_Summary :: string
  minutely_Icon :: string
  minutely_Data :: "ptr list"

record hourData =
  hr_TimeUnix :: int64
  hr_Time :: Time
  hr_Summary :: string
  hr_Icon :: string
  hr_PrecipitationIntensity :: float64
  hr_PrecipitationProbability :: float64
  hr_PrecipitationType :: string
  hr_Temperature :: float64
  hr_ApparentTemperature :: float64
  hr_DewPoint :: float64
  hr_Humidity :: float64
  hr_WindSpeed :: float64
  hr_WindBearing :: float64
  hr_Visibility :: float64
  hr_CloudCover :: float64
  hr_Pressure :: float64
  hr_Ozone :: float64

record hourly =
  hourly_Summary :: string
  hourly_Icon :: string
  hourly_Data :: "ptr list"

record dayData =
  day_TimeUnix :: int64
  day_Time :: Time
  day_Summary :: string
  day_Icon :: string
  day_SunriseUnix :: int64
  day_Sunrise :: Time
  day_SunsetUnix :: int64
  day_Sunset :: Time
  day_MoonPhase :: float64
  day_PrecipitationIntensity :: float64
  day_PrecipitationIntensityMax :: float64
  day_PrecipitationIntensityMaxTimeUnix :: int64
  day_PrecipitationIntensityMaxTime :: Time
  day_PrecipitationProbability :: float64
  day_PrecipitationType :: string
  day_TemperatureMin :: float64
  day_TemperatureMinTimeUnix :: int64
  day_TemperatureMinTime :: Time
  day_TemperatureMax :: float64
  day_TemperatureMaxTimeUnix :: int64
  day_TemperatureMaxTime :: Time
  day_ApparentTemperatureMin :: float64
  day_ApparentTemperatureMinTimeUnix :: int64
  day_ApparentTemperatureMinTime :: Time
  day_ApparentTemperatureMax :: float64
  day_ApparentTemperatureMaxTimeUnix :: int64
  day_ApparentTemperatureMaxTime :: Time
  day_DewPoint :: float64
  day_Humidity :: float64
  day_WindSpeed :: float64
  day_WindBearing :: float64
  day_Visibility :: float64
  day_CloudCover :: float64
  day_Pressure :: float64
  day_Ozone :: float64

record daily =
  daily_Summary :: string
  daily_Icon :: string
  daily_Data :: "ptr list"

record flags =
  flags_Sources :: "string list"
  flags_ISDStations :: "string list"
  flags_MadisStations :: "string list"
  flags_DatapointStations :: "string list"
  flags_DarkskyStations :: "string list"
  flags_Units :: string

record alert =
  alert_Title :: string
  alert_ExpiresUnix :: int64
  alert_Expires :: Time
  alert_Description :: string
  alert_URI :: string

record Forecast =
  Latitude :: float64
  Longitude :: float64
  Timezone :: string
  TimeOffset :: go_int
  Currently :: currently
  Minutely :: minutely
  Hourly :: hourly
  Daily :: daily
  Alerts :: "ptr list"
  Flags :: flags

text \<open>The objects the pointers of a forecast point to, one store for each struct.\<close>

record heap =
  minuteData_at :: "nat \<Rightarrow> minuteData"
  hourData_at :: "nat \<Rightarrow> hourData"
  dayData_at :: "nat \<Rightarrow> dayData"
  alert_at :: "nat \<Rightarrow> alert"

text \<open>The zero values of the structs, which \<^verbatim>\<open>var forecast Forecast\<close> starts from.\<close>

definition currently_zero :: currently where
  "currently_zero = \<lparr>cur_TimeUnix = 0, cur_Time = Time_zero, cur_Summary = [], cur_Icon = [],
     cur_NearestStormDistance = 0, cur_NearestStormBearing = 0,
     cur_PrecipitationIntensity = 0, cur_PrecipitationProbability = 0, cur_Temperature = 0,
     cur_ApparentTemperature = 0, cur_DewPoint = 0, cur_Humidity = 0, cur_WindSpeed = 0,
     cur_WindBearing = 0, cur_Visibility = 0, cur_CloudCover = 0, cur_Pressure = 0,
     cur_Ozone = 0\<rparr>"

definition minuteData_zero :: minuteData where
  "minuteData_zero = \<lparr>min_TimeUnix = 0, min_Time = Time_zero,
     min_PrecipitationIntensity = 0, min_PrecipitationProbability = 0\<rparr>"

definition hourData_zero :: hourData where
  "hourData_zero = \<lparr>hr_TimeUnix = 0, hr_Time = Time_zero, hr_Summary = [], hr_Icon = [],
     hr_PrecipitationIntensity = 0, hr_PrecipitationProbability = 0,
     hr_PrecipitationType = [], hr_Temperature = 0, hr_ApparentTemperature = 0,
     hr_DewPoint = 0, hr_Humidity = 0, hr_WindSpeed = 0, hr_WindBearing = 0,
     hr_Visibility = 0, hr_CloudCover = 0, hr_Pressure = 0, hr_Ozone = 0\<rparr>"

definition dayData_zero :: dayData where
  "dayData_zero = \<lparr>day_TimeUnix = 0, day_Time = Time_zero, day_Summary = [], day_Icon = [],
     day_SunriseUnix = 0, day_Sunrise = Time_zero, day_SunsetUnix = 0, day_Sunset = Time_zero,
     day_MoonPhase = 0, day_PrecipitationIntensity = 0, day_PrecipitationIntensityMax = 0,
     day_PrecipitationIntensityMaxTimeUnix = 0, day_PrecipitationIntensityMaxTime = Time_zero,
     day_PrecipitationProbability = 0, day_PrecipitationType = [],
     day_TemperatureMin = 0, day_TemperatureMinTimeUnix = 0, day_TemperatureMinTime = Time_zero,
     day_TemperatureMax = 0, day_TemperatureMaxTimeUnix = 0, day_TemperatureMaxTime = Time_zero,
     day_ApparentTemperatureMin = 0, day_ApparentTemperatureMinTimeUnix = 0,
     day_ApparentTemperatureMinTime = Time_zero,
     day_ApparentTemperatureMax = 0, day_ApparentTemperatureMaxTimeUnix = 0,
     day_ApparentTemperatureMaxTime = Time_zero,
     day_DewPoint = 0, day_Humidity = 0, day_WindSpeed = 0, day_WindBearing = 0,
     day_Visibility = 0, day_CloudCover = 0, day_Pressure = 0, day_Ozone = 0\<rparr>"

definition alert_zero :: alert where
  "alert_zero = \<lparr>alert_Title = [], alert_ExpiresUnix = 0, alert_Expires = Time_zero,
     alert_Description = [], alert_URI = []\<rparr>"

definition Forecast_zero :: Forecast where
  "Forecast_zero = \<lparr>Latitude = 0, Longitude = 0, Timezone = [], TimeOffset = 0,
     Currently = currently_zero,
     Minutely = \<lparr>minutely_Summary = [], minutely_Icon = [], minutely_Data = []\<rparr>,
     Hourly = \<lparr>hourly_Summary = [], hourly_Icon = [], hourly_Data = []\<rparr>,
     Daily = \<lparr>daily_Summary = [], daily_Icon = [], daily_Data = []\<rparr>,
     Alerts = [],
     Flags = \<lparr>flags_Sources = [], flags_ISDStations = [], flags_MadisStations = [],
       flags_DatapointStations = [], flags_DarkskyStations = [], flags_Units = []\<rparr>\<rparr>"

definition heap_zero :: heap where
  "heap_zero = \<lparr>minuteData_at = (\<lambda>_. minuteData_zero), hourData_at = (\<lambda>_. hourData_zero),
     dayData_at = (\<lambda>_. dayData_zero), alert_at = (\<lambda>_. alert_zero)\<rparr>"

subsection \<open>ParseTimes\<close>

text \<open>
  \<^verbatim>\<open>for _, x := range xs { body }\<close> over a slice of pointers, where the body assigns to
  fields of \<^verbatim>\<open>*x\<close>: the objects are updated in the store, in the order of the slice.
  The first nil pointer stops the loop with a run-time panic (the result is False), the
  objects assigned to before it staying as assigned.
\<close>

fun range_ptrs :: "('a \<Rightarrow> 'a) \<Rightarrow> ptr list \<Rightarrow> (nat \<Rightarrow> 'a) \<Rightarrow> bool \<times> (nat \<Rightarrow> 'a)" where
  "range_ptrs body [] st = (True, st)"
| "range_ptrs body (nil # ps) st = (False, st)"
| "range_ptrs body (Ptr p # ps) st = range_ptrs body ps (st(p := body (st p)))"

definition minute_body :: "minuteData \<Rightarrow> minuteData" where
  "minute_body m = m\<lparr>min_Time := time_Unix (min_TimeUnix m) 0\<rparr>"

definition hour_body :: "hourData \<Rightarrow> hourData" where
  "hour_body h = h\<lparr>hr_Time := time_Unix (hr_TimeUnix h) 0\<rparr>"

definition day_body :: "dayData \<Rightarrow> dayData" where
  "day_body d =
     (let d = d\<lparr>day_Time := time_Unix (day_TimeUnix d) 0\<rparr>;
          d = d\<lparr>day_Sunrise := time_Unix (day_SunriseUnix d) 0\<rparr>;
          d = d\<lparr>day_Sunset := time_Unix (day_SunsetUnix d) 0\<rparr>;
          d = d\<lparr>day_PrecipitationIntensityMaxTime :=
                  time_Unix (day_PrecipitationIntensityMaxTimeUnix d) 0\<rparr>;
          d = d\<lparr>day_TemperatureMinTime := time_Unix (day_TemperatureMinTimeUnix d) 0\<rparr>;
          d = d\<lparr>day_TemperatureMaxTime := time_Unix (day_TemperatureMaxTimeUnix d) 0\<rparr>;
          d = d\<lparr>day_ApparentTemperatureMinTime :=
                  time_Unix (day_ApparentTemperatureMinTimeUnix d) 0\<rparr>;
          d = d\<lparr>day_ApparentTemperatureMaxTime :=
                  time_Unix (day_ApparentTemperatureMaxTimeUnix d) 0\<rparr>
      in d)"

definition alert_body :: "alert \<Rightarrow> alert" where
  "alert_body a = a\<lparr>alert_Expires := time_Unix (alert_ExpiresUnix a) 0\<rparr>"

definition nil_dereference :: string where
  "nil_dereference = ''invalid memory address or nil pointer dereference''"

text \<open>
  ParseTimes on the forecast \<open>f\<close> in the heap \<open>h\<close>: the forecast and the heap after the call,
  and whether the call returned or panicked.
\<close>

definition ParseTimes :: "Forecast \<Rightarrow> heap \<Rightarrow> unit outcome \<times> Forecast \<times> heap" where
  "ParseTimes f h =
     (let f = f\<lparr>Currently := (Currently f)\<lparr>cur_Time := time_Unix (cur_TimeUnix (Currently f)) 0\<rparr>\<rparr>
      in case range_ptrs minute_body (minutely_Data (Minutely f)) (minuteData_at h) of
        (False, ms) \<Rightarrow> (Panicked nil_dereference, f, h\<lparr>minuteData_at := ms\<rparr>)
      | (True, ms) \<Rightarrow>
     (let h = h\<lparr>minuteData_at := ms\<rparr>
      in case range_ptrs hour_body (hourly_Data (Hourly f)) (hourData_at h) of
        (False, hs) \<Rightarrow> (Panicked nil_dereference, f, h\<lparr>hourData_at := hs\<rparr>)
      | (True, hs) \<Rightarrow>
     (let h = h\<lparr>hourData_at := hs\<rparr>
      in case range_ptrs day_body (daily_Data (Daily f)) (dayData_at h) of
        (False, ds) \<Rightarrow> (Panicked nil_dereference, f, h\<lparr>dayData_at := ds\<rparr>)
      | (True, ds) \<Rightarrow>
     (let h = h\<lparr>dayData_at := ds\<rparr>
      in case range_ptrs alert_body (Alerts f) (alert_at h) of
        (False, als) \<Rightarrow> (Panicked nil_dereference, f, h\<lparr>alert_at := als\<rparr>)
      | (True, als) \<Rightarrow> (Returned (), f, h\<lparr>alert_at := als\<rparr>)))))"

subsection \<open>The service, as the connection sees it\<close>

text \<open>
  A response is its headers (the first value of each one, as \<^verbatim>\<open>Header.Get\<close> reads them:
  the empty string when the header is missing) and what \<^verbatim>\<open>ioutil.ReadAll\<close> makes of its
  body: the bytes or an error.
\<close>

record Response =
  Header :: "string \<rightharpoonup> string"
  Body :: "error + string"

definition Header_Get :: "(string \<rightharpoonup> string) \<Rightarrow> string \<Rightarrow> string" where
  "Header_Get h key = (case h key of None \<Rightarrow> [] | Some v \<Rightarrow> v)"

text \<open>
  The collaborators the package calls and does not define: what \<^verbatim>\<open>http.Get\<close> returns for
  a URL, what \<^verbatim>\<open>json.Unmarshal\<close> makes of a body when decoding into a given forecast, and
  how the verb \<^verbatim>\<open>%f\<close> prints a float.
\<close>

record World =
  Get_returns :: "string \<Rightarrow> error + Response"
  Unmarshal_returns :: "string \<Rightarrow> Forecast \<Rightarrow> Forecast \<times> error option"
  fmt_f :: "float64 \<Rightarrow> string"

subsection \<open>Forecast and ForecastAtTime\<close>

text \<open>
  A fetch returns the pair of Go results (a forecast pointer, nil being None, and an
  error, nil being None) or panics; with it come the connection after the call and the
  events of the call.
\<close>

type_synonym fetched = "(Forecast option \<times> error option) outcome \<times> APIConn \<times> event list"

text \<open>The validation loops: lines 261-268 of Forecast and 309-313 of ForecastAtTime.\<close>

fun check_excludes :: "string list \<Rightarrow> error option" where
  "check_excludes [] = None"
| "check_excludes (ex # rest) =
     (if ex = [] then check_excludes rest
      else if ex \<notin> excludesSet then Some (errors_New ''Invalid exclude requested'')
      else check_excludes rest)"

fun check_excludes_at_time :: "string list \<Rightarrow> error option" where
  "check_excludes_at_time [] = None"
| "check_excludes_at_time (ex # rest) =
     (if ex \<notin> excludesSet then Some (errors_New ''Invalid exclude requested'')
      else check_excludes_at_time rest)"

text \<open>
  The request itself, from \<^verbatim>\<open>a.Lock()\<close> to the return: lines 274-287 of Forecast, and
  the same statements again at lines 323-336 of ForecastAtTime. The deferred unlock runs
  at every return.
\<close>

definition request ::
  "World \<Rightarrow> APIConn \<Rightarrow> string \<Rightarrow> (Forecast option \<times> error option) \<times> APIConn \<times> event list" where
  "request w a query =
     (case Get_returns w query of
        Inl err \<Rightarrow> ((None, Some err), a, [Lock, http_Get query, Unlock])
      | Inr response \<Rightarrow>
          (case Body response of
             Inl err \<Rightarrow> ((None, Some err), a, [Lock, http_Get query, ioutil_ReadAll, Unlock])
           | Inr body \<Rightarrow>
               (case Unmarshal_returns w body Forecast_zero of
                  (forecast, err) \<Rightarrow>
                    ((Some forecast, err),
                     a\<lparr>apiCalls :=
                         fst (strconv_Atoi (Header_Get (Header response) ''X-Forecast-API-Calls''))\<rparr>,
                     [Lock, http_Get query, ioutil_ReadAll, Body_Close, json_Unmarshal body,
                      Store F_apiCalls, Unlock]))))"

text \<open>The query of Forecast, lines 269-272.\<close>

definition Forecast_query ::
  "World \<Rightarrow> APIConn \<Rightarrow> float64 \<Rightarrow> float64 \<Rightarrow> string list \<Rightarrow> bool \<Rightarrow> string" where
  "Forecast_query w a lat lon excludes extendHourly =
     (let query = baseURL @ ''/'' @ apiKey a @ ''/'' @ fmt_f w lat @ '','' @ fmt_f w lon @
                  ''?units='' @ units a @ ''&exclude='' @ strings_Join excludes '',''
      in if extendHourly then query @ ''&extend=hourly'' else query)"

definition Forecast ::
  "World \<Rightarrow> APIConn \<Rightarrow> float64 \<Rightarrow> float64 \<Rightarrow> string list \<Rightarrow> bool \<Rightarrow> fetched" where
  "Forecast w a lat lon excludes extendHourly =
     (case check_excludes excludes of
        Some err \<Rightarrow> (Returned (None, Some err), a, [])
      | None \<Rightarrow>
          (case request w a (Forecast_query w a lat lon excludes extendHourly) of
             (res, a', evs) \<Rightarrow> (Returned res, a', [Load F_apiKey, Load F_units] @ evs)))"

text \<open>
  The \<^verbatim>\<open>date interface{}\<close> argument of ForecastAtTime, by its dynamic type: the three
  types the type switch names, \<^verbatim>\<open>int\<close> and \<^verbatim>\<open>int64\<close> apart, and any other type.
\<close>

datatype date =
    date_Time Time
  | date_int go_int
  | date_int64 int64
  | date_string string
  | date_other

text \<open>
  The type switch of lines 314-321. In the case \<^verbatim>\<open>int, int64\<close> the argument is
  \<^verbatim>\<open>date.(int64)\<close>, an assertion that panics when the dynamic type is \<^verbatim>\<open>int\<close>. The
  switch has no default: for any other type the query stays the empty string. With the
  query come the fields of the connection read for it, the operands being taken from
  left to right.
\<close>

definition ForecastAtTime_query ::
  "World \<Rightarrow> APIConn \<Rightarrow> float64 \<Rightarrow> float64 \<Rightarrow> date \<Rightarrow> string list \<Rightarrow> string outcome \<times> event list" where
  "ForecastAtTime_query w a lat lon d excludes =
     (let before = baseURL @ ''/'' @ apiKey a @ ''/'' @ fmt_f w lat @ '','' @ fmt_f w lon @ '','';
          after = ''?units='' @ units a @ ''&exclude='' @ strings_Join excludes '',''
      in case d of
           date_Time t \<Rightarrow> (Returned (before @ fmt_d (Time_Unix t) @ after), [Load F_apiKey, Load F_units])
         | date_int n \<Rightarrow>
             (Panicked ''interface conversion: interface {} is int, not int64'', [Load F_apiKey])
         | date_int64 n \<Rightarrow> (Returned (before @ fmt_d n @ after), [Load F_apiKey, Load F_units])
         | date_string str \<Rightarrow> (Returned (before @ str @ after), [Load F_apiKey, Load F_units])
         | date_other \<Rightarrow> (Returned [], []))"

definition ForecastAtTime ::
  "World \<Rightarrow> APIConn \<Rightarrow> float64 \<Rightarrow> float64 \<Rightarrow> date \<Rightarrow> string list \<Rightarrow> fetched" where
  "ForecastAtTime w a lat lon d excludes =
     (case check_excludes_at_time excludes of
        Some err \<Rightarrow> (Returned (None, Some err), a, [])
      | None \<Rightarrow>
          (case ForecastAtTime_query w a lat lon d excludes of
             (Panicked msg, loads) \<Rightarrow> (Panicked msg, a, loads)
           | (Returned query, loads) \<Rightarrow>
               (case request w a query of
                  (res, a', evs) \<Rightarrow> (Returned res, a', loads @ evs))))"

text \<open>The URLs a call requested, and the bodies it handed to the JSON decoder.\<close>

fun network_calls :: "event list \<Rightarrow> string list" where
  "network_calls [] = []"
| "network_calls (http_Get url # es) = url # network_calls es"
| "network_calls (e # es) = network_calls es"

fun parsed_bodies :: "event list \<Rightarrow> string list" where
  "parsed_bodies [] = []"
| "parsed_bodies (json_Unmarshal body # es) = body # parsed_bodies es"
| "parsed_bodies (e # es) = parsed_bodies es"

text \<open>
  The events of a call that happen while the exclusive lock of the connection is not
  held; the flag says whether it is held at the start.
\<close>

fun unlocked_events :: "bool \<Rightarrow> event list \<Rightarrow> event list" where
  "unlocked_events held [] = []"
| "unlocked_events held (Lock # es) = unlocked_events True es"
| "unlocked_events held (Unlock # es) = unlocked_events False es"
| "unlocked_events held (e # es) = (if held then unlocked_events held es else e # unlocked_events held es)"

subsection \<open>Decimal integers, as the specification speaks of them\<close>

text \<open>
  A decimal integer is a non-empty string of the digits 0 to 9, with an optional sign
  before them; its value is read in base ten. This follows the specification's words
  and not \<^verbatim>\<open>strconv\<close>: the two are compared below.
\<close>

definition is_digit :: "char \<Rightarrow> bool" where
  "is_digit c = (c \<in> set ''0123456789'')"

definition decimal_step :: "nat \<Rightarrow> char \<Rightarrow> nat" where
  "decimal_step n c = n * 10 + (of_char c - 48)"

definition decimal_digits :: "string \<Rightarrow> nat option" where
  "decimal_digits s =
     (if s \<noteq> [] \<and> list_all is_digit s then Some (foldl decimal_step 0 s) else None)"

definition decimal_integer :: "string \<Rightarrow> int option" where
  "decimal_integer s =
     (case s of
        [] \<Rightarrow> None
      | c # cs \<Rightarrow>
          if c = CHR ''+'' then map_option int (decimal_digits cs)
          else if c = CHR ''-'' then map_option (\<lambda>n. - int n) (decimal_digits cs)
          else map_option int (decimal_digits s))"

subsection \<open>Sample data\<close>

text \<open>
  A forecast whose minutely block points twice to the same sample, with one day and one
  alert, and the same forecast with a nil pointer in its minutely block, as the decoder
  makes of \<^verbatim>\<open>"data":[null]\<close>.
\<close>

definition example_forecast :: Forecast where
  "example_forecast = Forecast_zero
     \<lparr>Currently := currently_zero\<lparr>cur_TimeUnix := 1609459200\<rparr>,
      Minutely := \<lparr>minutely_Summary = ''Clear'', minutely_Icon = [], minutely_Data = [Ptr 0, Ptr 0]\<rparr>,
      Daily := \<lparr>daily_Summary = [], daily_Icon = [], daily_Data = [Ptr 1]\<rparr>,
      Alerts := [Ptr 2]\<rparr>"

definition example_heap :: heap where
  "example_heap = heap_zero
     \<lparr>minuteData_at := (\<lambda>_. minuteData_zero)(0 := minuteData_zero\<lparr>min_TimeUnix := 1609459260\<rparr>),
      dayData_at := (\<lambda>_. dayData_zero)(1 := dayData_zero\<lparr>day_SunriseUnix := 1609488000\<rparr>),
      alert_at := (\<lambda>_. alert_zero)(2 := alert_zero\<lparr>alert_ExpiresUnix := 1609545600\<rparr>)\<rparr>"

definition nil_forecast :: Forecast where
  "nil_forecast = example_forecast
     \<lparr>Minutely := \<lparr>minutely_Summary = ''Clear'', minutely_Icon = [], minutely_Data = [nil]\<rparr>\<rparr>"

text \<open>
  Four services: one that answers every request with an empty JSON object and a call
  count of 42, one that sends no call count, one whose body does not decode, and one
  that cannot be reached.
\<close>

definition example_world :: World where
  "example_world =
     \<lparr>Get_returns = (\<lambda>url. Inr \<lparr>Header = [''X-Forecast-API-Calls'' \<mapsto> ''42''], Body = Inr ''{}''\<rparr>),
      Unmarshal_returns = (\<lambda>body f. (f, None)),
      fmt_f = (\<lambda>x. ''0.000000'')\<rparr>"

definition no_header_world :: World where
  "no_header_world =
     example_world\<lparr>Get_returns := (\<lambda>url. Inr \<lparr>Header = Map.empty, Body = Inr ''{}''\<rparr>)\<rparr>"

definition garbled_world :: World where
  "garbled_world =
     example_world\<lparr>Unmarshal_returns :=
       (\<lambda>body f. (f\<lparr>Timezone := ''Europe/London''\<rparr>, Some (JSONError ''unexpected end of JSON input'')))\<rparr>"

definition offline_world :: World where
  "offline_world =
     example_world\<lparr>Get_returns := (\<lambda>url. Inl (TransportError ''connection refused''))\<rparr>"

section \<open>Properties\<close>

subsection \<open>Unit selection\<close>

text \<open>
  C5. For each of the five strings us, si, ca, uk and auto, SetUnits returns a nil error
  and Units on the resulting connection returns that string. For every other string
  SetUnits returns the error "Invalid units requested" and Units still returns the value
  stored before.
\<close>

theorem SetUnits_Units:
  "(u \<in> {''us'', ''si'', ''ca'', ''uk'', ''auto''} \<longrightarrow>
      fst (SetUnits a u) = None \<and> fst (Units (fst (snd (SetUnits a u)))) = u) \<and>
   (u \<notin> {''us'', ''si'', ''ca'', ''uk'', ''auto''} \<longrightarrow>
      fst (SetUnits a u) = Some (errors_New ''Invalid units requested'') \<and>
      fst (Units (fst (snd (SetUnits a u)))) = fst (Units a))"
  by (simp add: SetUnits_def Units_def unitsSet_def)

theorem SetUnits_Units_witness:
  "fst (SetUnits (NewConnection ''k'') ''si'') = None \<and>
   fst (Units (fst (snd (SetUnits (NewConnection ''k'') ''si'')))) = ''si'' \<and>
   fst (SetUnits (NewConnection ''k'') ''metric'') = Some (errors_New ''Invalid units requested'') \<and>
   fst (Units (fst (snd (SetUnits (NewConnection ''k'') ''metric'')))) = ''auto''"
  using SetUnits_Units [of "''si''" "NewConnection ''k''"]
    SetUnits_Units [of "''metric''" "NewConnection ''k''"]
  by (simp add: Units_def NewConnection_def)

subsection \<open>Time normalisation\<close>

text \<open>
  What \<^verbatim>\<open>time.Unix(sec, 0)\<close> makes: a time whose seconds since 1970 are \<open>sec\<close> again, with
  zero nanoseconds, in the local time zone.
\<close>

lemma time_Unix_seconds:
  "Time_Unix (time_Unix sec 0) = sec \<and> Time_Nanosecond (time_Unix sec 0) = 0 \<and>
   loc (time_Unix sec 0) = Local"
  by (simp add: Time_Unix_def Time_sec_def Time_Nanosecond_def time_Unix_def)

text \<open>A loop over pointers completes exactly when none of them is nil.\<close>

lemma range_ptrs_fst: "fst (range_ptrs body ps st) = (nil \<notin> set ps)"
proof (induction ps arbitrary: st)
  case Nil
  show ?case by simp
next
  case (Cons p ps)
  show ?case by (cases p) (simp_all add: Cons.IH)
qed

text \<open>
  When the body assigns the same values on a second run, the loop leaves every object
  reached before the first nil pointer as one run of the body leaves it, however often
  the slice points to it, and every other object as it was.
\<close>

lemma range_ptrs_snd:
  assumes idem: "\<And>x. body (body x) = body x"
  shows "snd (range_ptrs body ps st) a =
     (if Ptr a \<in> set (takeWhile (\<lambda>p. p \<noteq> nil) ps) then body (st a) else st a)"
proof (induction ps arbitrary: st)
  case Nil
  show ?case by simp
next
  case (Cons p ps)
  show ?case by (cases p) (simp_all add: Cons.IH idem)
qed

lemma range_ptrs_again:
  assumes idem: "\<And>x. body (body x) = body x"
    and r: "range_ptrs body ps st = (ok, st')"
  shows "range_ptrs body ps st' = (ok, st')"
proof -
  have ok: "ok = (nil \<notin> set ps)"
    using r range_ptrs_fst [of body ps st] by simp
  have st': "st' a = (if Ptr a \<in> set (takeWhile (\<lambda>p. p \<noteq> nil) ps) then body (st a) else st a)"
    for a
    using r range_ptrs_snd [of body ps st a, OF idem] by simp
  have "snd (range_ptrs body ps st') a = st' a" for a
    by (simp add: range_ptrs_snd [of body, OF idem] st' idem)
  then have "snd (range_ptrs body ps st') = st'" by (rule ext)
  moreover have "fst (range_ptrs body ps st') = ok"
    by (simp add: range_ptrs_fst ok)
  ultimately show ?thesis by (simp add: prod_eq_iff)
qed

lemma minute_body_idem: "minute_body (minute_body m) = minute_body m"
  by (simp add: minute_body_def)

lemma hour_body_idem: "hour_body (hour_body x) = hour_body x"
  by (simp add: hour_body_def)

lemma day_body_idem: "day_body (day_body d) = day_body d"
  by (simp add: day_body_def Let_def)

lemma alert_body_idem: "alert_body (alert_body x) = alert_body x"
  by (simp add: alert_body_def)

text \<open>
  C8. ParseTimes is idempotent: for every forecast and every heap, running ParseTimes on
  the forecast and heap a first run leaves gives the same forecast, the same heap and the
  same outcome as the first run gave.
\<close>

theorem ParseTimes_idempotent:
  "ParseTimes (fst (snd (ParseTimes f h))) (snd (snd (ParseTimes f h))) = ParseTimes f h"
proof -
  obtain okm ms where m:
    "range_ptrs minute_body (minutely_Data (Minutely f)) (minuteData_at h) = (okm, ms)"
    by fastforce
  obtain okh hs where hh:
    "range_ptrs hour_body (hourly_Data (Hourly f)) (hourData_at h) = (okh, hs)"
    by fastforce
  obtain okd ds where d:
    "range_ptrs day_body (daily_Data (Daily f)) (dayData_at h) = (okd, ds)"
    by fastforce
  obtain oka als where a:
    "range_ptrs alert_body (Alerts f) (alert_at h) = (oka, als)"
    by fastforce
  note m' = range_ptrs_again [of minute_body, OF minute_body_idem m]
  note h' = range_ptrs_again [of hour_body, OF hour_body_idem hh]
  note d' = range_ptrs_again [of day_body, OF day_body_idem d]
  note a' = range_ptrs_again [of alert_body, OF alert_body_idem a]
  show ?thesis
    by (cases okm; cases okh; cases okd; cases oka)
      (simp_all add: ParseTimes_def m hh d a m' h' d' a')
qed

lemma range_ptrs_complete:
  assumes idem: "\<And>x. body (body x) = body x" and nn: "nil \<notin> set ps"
  shows "range_ptrs body ps st = (True, \<lambda>a. if Ptr a \<in> set ps then body (st a) else st a)"
proof -
  have tw: "takeWhile (\<lambda>p. p \<noteq> nil) ps = ps"
    using nn by (simp add: takeWhile_eq_all_conv) metis
  have "snd (range_ptrs body ps st) = (\<lambda>a. if Ptr a \<in> set ps then body (st a) else st a)"
    by (rule ext) (simp add: range_ptrs_snd [of body, OF idem] tw)
  moreover have "fst (range_ptrs body ps st) = True"
    using nn by (simp add: range_ptrs_fst)
  ultimately show ?thesis by (simp add: prod_eq_iff)
qed

text \<open>The eight assignments of the daily loop read raw fields none of them writes.\<close>

lemma day_body_eq:
  "day_body d = d\<lparr>day_Time := time_Unix (day_TimeUnix d) 0,
       day_Sunrise := time_Unix (day_SunriseUnix d) 0,
       day_Sunset := time_Unix (day_SunsetUnix d) 0,
       day_PrecipitationIntensityMaxTime := time_Unix (day_PrecipitationIntensityMaxTimeUnix d) 0,
       day_TemperatureMinTime := time_Unix (day_TemperatureMinTimeUnix d) 0,
       day_TemperatureMaxTime := time_Unix (day_TemperatureMaxTimeUnix d) 0,
       day_ApparentTemperatureMinTime := time_Unix (day_ApparentTemperatureMinTimeUnix d) 0,
       day_ApparentTemperatureMaxTime := time_Unix (day_ApparentTemperatureMaxTimeUnix d) 0\<rparr>"
  by (simp add: day_body_def Let_def)

text \<open>
  C7, as the code has it. For every forecast none of whose sample and alert pointers is
  nil, ParseTimes returns, and it leaves: the forecast as it was but for the time of the
  current conditions, now \<^verbatim>\<open>time.Unix\<close> of their raw time; every minute, hour and day
  sample and every alert the forecast points to as it was but for its structured times
  (for a day also sunrise, sunset, the time of the highest precipitation intensity and
  the times of the lowest and highest temperature and apparent temperature), each now
  \<^verbatim>\<open>time.Unix\<close> of its own raw field with zero nanoseconds; and every other object of
  the heap untouched. Raw fields are never written.
\<close>

theorem ParseTimes_sets_times:
  assumes "nil \<notin> set (minutely_Data (Minutely f))"
    and "nil \<notin> set (hourly_Data (Hourly f))"
    and "nil \<notin> set (daily_Data (Daily f))"
    and "nil \<notin> set (Alerts f)"
  shows "ParseTimes f h =
    (Returned (),
     f\<lparr>Currently := (Currently f)\<lparr>cur_Time := time_Unix (cur_TimeUnix (Currently f)) 0\<rparr>\<rparr>,
     \<lparr>minuteData_at = (\<lambda>a. let m = minuteData_at h a in
          if Ptr a \<in> set (minutely_Data (Minutely f))
          then m\<lparr>min_Time := time_Unix (min_TimeUnix m) 0\<rparr> else m),
       hourData_at = (\<lambda>a. let x = hourData_at h a in
          if Ptr a \<in> set (hourly_Data (Hourly f))
          then x\<lparr>hr_Time := time_Unix (hr_TimeUnix x) 0\<rparr> else x),
       dayData_at = (\<lambda>a. let d = dayData_at h a in
          if Ptr a \<in> set (daily_Data (Daily f))
          then d\<lparr>day_Time := time_Unix (day_TimeUnix d) 0,
                 day_Sunrise := time_Unix (day_SunriseUnix d) 0,
                 day_Sunset := time_Unix (day_SunsetUnix d) 0,
                 day_PrecipitationIntensityMaxTime :=
                   time_Unix (day_PrecipitationIntensityMaxTimeUnix d) 0,
                 day_TemperatureMinTime := time_Unix (day_TemperatureMinTimeUnix d) 0,
                 day_TemperatureMaxTime := time_Unix (day_TemperatureMaxTimeUnix d) 0,
                 day_ApparentTemperatureMinTime :=
                   time_Unix (day_ApparentTemperatureMinTimeUnix d) 0,
                 day_ApparentTemperatureMaxTime :=
                   time_Unix (day_ApparentTemperatureMaxTimeUnix d) 0\<rparr>
          else d),
       alert_at = (\<lambda>a. let x = alert_at h a in
          if Ptr a \<in> set (Alerts f)
          then x\<lparr>alert_Expires := time_Unix (alert_ExpiresUnix x) 0\<rparr> else x)\<rparr>)"
proof -
  note m = range_ptrs_complete [of minute_body, OF minute_body_idem assms(1)]
  note hh = range_ptrs_complete [of hour_body, OF hour_body_idem assms(2)]
  note d = range_ptrs_complete [of day_body, OF day_body_idem assms(3)]
  note a = range_ptrs_complete [of alert_body, OF alert_body_idem assms(4)]
  have step: "ParseTimes f h =
    (Returned (),
     f\<lparr>Currently := (Currently f)\<lparr>cur_Time := time_Unix (cur_TimeUnix (Currently f)) 0\<rparr>\<rparr>,
     h\<lparr>minuteData_at := (\<lambda>a. if Ptr a \<in> set (minutely_Data (Minutely f))
          then minute_body (minuteData_at h a) else minuteData_at h a),
       hourData_at := (\<lambda>a. if Ptr a \<in> set (hourly_Data (Hourly f))
          then hour_body (hourData_at h a) else hourData_at h a),
       dayData_at := (\<lambda>a. if Ptr a \<in> set (daily_Data (Daily f))
          then day_body (dayData_at h a) else dayData_at h a),
       alert_at := (\<lambda>a. if Ptr a \<in> set (Alerts f)
          then alert_body (alert_at h a) else alert_at h a)\<rparr>)"
    by (simp add: ParseTimes_def Let_def m hh d a cong: if_cong)
  show ?thesis
    unfolding step
    by (cases h)
      (simp add: minute_body_def hour_body_def alert_body_def day_body_eq Let_def cong: if_cong)
qed

theorem ParseTimes_sets_times_witness:
  "nil \<notin> set (minutely_Data (Minutely example_forecast)) \<and>
   nil \<notin> set (hourly_Data (Hourly example_forecast)) \<and>
   nil \<notin> set (daily_Data (Daily example_forecast)) \<and>
   nil \<notin> set (Alerts example_forecast) \<and>
   fst (ParseTimes example_forecast example_heap) = Returned () \<and>
   cur_Time (Currently (fst (snd (ParseTimes example_forecast example_heap)))) =
     time_Unix 1609459200 0 \<and>
   min_Time (minuteData_at (snd (snd (ParseTimes example_forecast example_heap))) 0) =
     time_Unix 1609459260 0 \<and>
   min_TimeUnix (minuteData_at (snd (snd (ParseTimes example_forecast example_heap))) 0) =
     1609459260 \<and>
   min_Time (minuteData_at (snd (snd (ParseTimes example_forecast example_heap))) 7) =
     Time_zero \<and>
   day_Sunrise (dayData_at (snd (snd (ParseTimes example_forecast example_heap))) 1) =
     time_Unix 1609488000 0 \<and>
   alert_Expires (alert_at (snd (snd (ParseTimes example_forecast example_heap))) 2) =
     time_Unix 1609545600 0"
proof -
  have nn: "nil \<notin> set (minutely_Data (Minutely example_forecast))"
    "nil \<notin> set (hourly_Data (Hourly example_forecast))"
    "nil \<notin> set (daily_Data (Daily example_forecast))"
    "nil \<notin> set (Alerts example_forecast)"
    by (simp_all add: example_forecast_def Forecast_zero_def)
  show ?thesis
    unfolding ParseTimes_sets_times [OF nn, of example_heap]
    by (simp add: example_forecast_def Forecast_zero_def example_heap_def heap_zero_def
        currently_zero_def minuteData_zero_def dayData_zero_def alert_zero_def Let_def)
qed

text \<open>
  As the claim states it, for every forecast, it fails: at a nil pointer in the minutely
  block ParseTimes panics, before it reaches the alerts, so the alert of the sample
  forecast keeps the zero time and not the conversion of its raw expiry.
\<close>

theorem ParseTimes_nil_counterexample:
  "fst (ParseTimes nil_forecast example_heap) = Panicked nil_dereference \<and>
   alert_Expires (alert_at (snd (snd (ParseTimes nil_forecast example_heap))) 2) \<noteq>
     time_Unix (alert_ExpiresUnix (alert_at example_heap 2)) 0"
  by (simp add: ParseTimes_def nil_forecast_def example_forecast_def Forecast_zero_def
      example_heap_def heap_zero_def alert_zero_def Time_zero_def time_Unix_def Let_def)

subsection \<open>Validation of the exclude list\<close>

lemma check_excludes_Some:
  "check_excludes excludes = Some e \<Longrightarrow> e = errors_New ''Invalid exclude requested''"
  by (induction excludes) (auto split: if_splits)

lemma check_excludes_iff:
  "(check_excludes excludes \<noteq> None) = (\<exists>ex\<in>set excludes. ex \<noteq> [] \<and> ex \<notin> excludesSet)"
  by (induction excludes) auto

lemma check_excludes_at_time_Some:
  "check_excludes_at_time excludes = Some e \<Longrightarrow> e = errors_New ''Invalid exclude requested''"
  by (induction excludes) (auto split: if_splits)

lemma check_excludes_at_time_iff:
  "(check_excludes_at_time excludes \<noteq> None) = (\<exists>ex\<in>set excludes. ex \<notin> excludesSet)"
  by (induction excludes) auto

lemma network_calls_request: "network_calls (snd (snd (request w a q))) = [q]"
  by (simp add: request_def split: sum.splits prod.splits)

lemma network_calls_append: "network_calls (xs @ ys) = network_calls xs @ network_calls ys"
  by (induction xs rule: network_calls.induct) simp_all

lemma Forecast_valid:
  "check_excludes excludes = None \<Longrightarrow>
   Forecast w a lat lon excludes extendHourly =
     (Returned (fst (request w a (Forecast_query w a lat lon excludes extendHourly))),
      fst (snd (request w a (Forecast_query w a lat lon excludes extendHourly))),
      [Load F_apiKey, Load F_units] @ snd (snd (request w a (Forecast_query w a lat lon excludes extendHourly))))"
  by (simp add: Forecast_def split: prod.splits)

lemma Forecast_invalid:
  "check_excludes excludes \<noteq> None \<Longrightarrow>
   Forecast w a lat lon excludes extendHourly =
     (Returned (None, Some (errors_New ''Invalid exclude requested'')), a, [])"
  by (auto simp: Forecast_def dest: check_excludes_Some)

lemma ForecastAtTime_invalid:
  "check_excludes_at_time excludes \<noteq> None \<Longrightarrow>
   ForecastAtTime w a lat lon d excludes =
     (Returned (None, Some (errors_New ''Invalid exclude requested'')), a, [])"
  by (auto simp: ForecastAtTime_def dest: check_excludes_at_time_Some)

lemma ForecastAtTime_valid:
  "check_excludes_at_time excludes = None \<Longrightarrow>
   ForecastAtTime_query w a lat lon d excludes = (Returned q, loads) \<Longrightarrow>
   ForecastAtTime w a lat lon d excludes =
     (Returned (fst (request w a q)), fst (snd (request w a q)), loads @ snd (snd (request w a q)))"
  by (simp add: ForecastAtTime_def split: prod.splits)

lemma ForecastAtTime_panics:
  "check_excludes_at_time excludes = None \<Longrightarrow>
   ForecastAtTime_query w a lat lon d excludes = (Panicked msg, loads) \<Longrightarrow>
   ForecastAtTime w a lat lon d excludes = (Panicked msg, a, loads)"
  by (simp add: ForecastAtTime_def)

lemma ForecastAtTime_query_loads:
  "network_calls (snd (ForecastAtTime_query w a lat lon d excludes)) = []"
  by (cases d) (simp_all add: ForecastAtTime_query_def Let_def)

text \<open>
  C4. For every exclude list, Forecast returns the error "Invalid exclude requested"
  with no forecast and without a network call exactly when the list has a non-empty
  entry outside currently, minutely, hourly, daily, alerts and flags: empty entries are
  skipped. ForecastAtTime does so exactly when the list has any entry outside that set,
  the empty string included.
\<close>

theorem exclude_validation:
  "((fst (Forecast w a lat lon excludes extendHourly) =
       Returned (None, Some (errors_New ''Invalid exclude requested'')) \<and>
     network_calls (snd (snd (Forecast w a lat lon excludes extendHourly))) = []) =
    (\<exists>ex\<in>set excludes. ex \<noteq> [] \<and>
       ex \<notin> {''currently'', ''minutely'', ''hourly'', ''daily'', ''alerts'', ''flags''})) \<and>
   ((fst (ForecastAtTime w a lat lon d excludes) =
       Returned (None, Some (errors_New ''Invalid exclude requested'')) \<and>
     network_calls (snd (snd (ForecastAtTime w a lat lon d excludes))) = []) =
    (\<exists>ex\<in>set excludes.
       ex \<notin> {''currently'', ''minutely'', ''hourly'', ''daily'', ''alerts'', ''flags''}))"
proof (intro conjI)
  show "(fst (Forecast w a lat lon excludes extendHourly) =
       Returned (None, Some (errors_New ''Invalid exclude requested'')) \<and>
     network_calls (snd (snd (Forecast w a lat lon excludes extendHourly))) = []) =
    (\<exists>ex\<in>set excludes. ex \<noteq> [] \<and>
       ex \<notin> {''currently'', ''minutely'', ''hourly'', ''daily'', ''alerts'', ''flags''})"
  proof (cases "check_excludes excludes")
    case None
    then have "\<not> (\<exists>ex\<in>set excludes. ex \<noteq> [] \<and> ex \<notin> excludesSet)"
      using check_excludes_iff [of excludes] by simp
    then show ?thesis
      by (simp add: Forecast_valid [OF None] network_calls_request excludesSet_def)
  next
    case (Some e)
    then have "\<exists>ex\<in>set excludes. ex \<noteq> [] \<and> ex \<notin> excludesSet"
      using check_excludes_iff [of excludes] by simp
    moreover have "check_excludes excludes \<noteq> None" using Some by simp
    ultimately show ?thesis
      by (simp add: Forecast_invalid excludesSet_def)
  qed
  show "(fst (ForecastAtTime w a lat lon d excludes) =
       Returned (None, Some (errors_New ''Invalid exclude requested'')) \<and>
     network_calls (snd (snd (ForecastAtTime w a lat lon d excludes))) = []) =
    (\<exists>ex\<in>set excludes.
       ex \<notin> {''currently'', ''minutely'', ''hourly'', ''daily'', ''alerts'', ''flags''})"
  proof (cases "check_excludes_at_time excludes")
    case None
    then have no: "\<not> (\<exists>ex\<in>set excludes. ex \<notin> excludesSet)"
      using check_excludes_at_time_iff [of excludes] by simp
    obtain res loads where q: "ForecastAtTime_query w a lat lon d excludes = (res, loads)"
      by fastforce
    show ?thesis
    proof (cases res)
      case (Returned url)
      show ?thesis
        using no ForecastAtTime_valid [OF None q [unfolded Returned]]
        by (simp add: network_calls_append network_calls_request excludesSet_def)
    next
      case (Panicked msg)
      show ?thesis
        using no ForecastAtTime_panics [OF None q [unfolded Panicked]]
        by (simp add: excludesSet_def)
    qed
  next
    case (Some e)
    then have "\<exists>ex\<in>set excludes. ex \<notin> excludesSet"
      using check_excludes_at_time_iff [of excludes] by simp
    moreover have "check_excludes_at_time excludes \<noteq> None" using Some by simp
    ultimately show ?thesis
      by (simp add: ForecastAtTime_invalid excludesSet_def)
  qed
qed

theorem exclude_validation_witness:
  "fst (Forecast offline_world (NewConnection ''k'') 0 0 ['''', ''daily''] False) \<noteq>
     Returned (None, Some (errors_New ''Invalid exclude requested'')) \<and>
   fst (Forecast example_world (NewConnection ''k'') 0 0 [''daily'', ''weekly''] False) =
     Returned (None, Some (errors_New ''Invalid exclude requested'')) \<and>
   network_calls (snd (snd
     (Forecast example_world (NewConnection ''k'') 0 0 [''daily'', ''weekly''] False))) = [] \<and>
   fst (ForecastAtTime example_world (NewConnection ''k'') 0 0 (date_int64 0) ['''', ''daily'']) =
     Returned (None, Some (errors_New ''Invalid exclude requested'')) \<and>
   network_calls (snd (snd
     (ForecastAtTime example_world (NewConnection ''k'') 0 0 (date_int64 0) ['''', ''daily'']))) = []"
proof -
  have 1: "fst (Forecast offline_world (NewConnection ''k'') 0 0 ['''', ''daily''] False) \<noteq>
      Returned (None, Some (errors_New ''Invalid exclude requested''))"
    by (simp add: Forecast_def request_def offline_world_def example_world_def excludesSet_def)
  show ?thesis
    using 1
      exclude_validation [of example_world "NewConnection ''k''" 0 0 "[''daily'', ''weekly'']"
        False "date_int64 0"]
      exclude_validation [of example_world "NewConnection ''k''" 0 0 "['''', ''daily'']"
        False "date_int64 0"]
    by simp
qed

subsection \<open>Fetching\<close>

lemma parsed_bodies_append: "parsed_bodies (xs @ ys) = parsed_bodies xs @ parsed_bodies ys"
  by (induction xs rule: parsed_bodies.induct) simp_all

lemma ForecastAtTime_query_no_parse:
  "parsed_bodies (snd (ForecastAtTime_query w a lat lon d excludes)) = []"
  by (cases d) (simp_all add: ForecastAtTime_query_def Let_def)

lemma request_parse_error:
  assumes "Get_returns w q = Inr response" and "Body response = Inr body"
    and "Unmarshal_returns w body Forecast_zero = (f, Some e)"
  shows "fst (request w a q) = (Some f, Some e)"
  using assms by (simp add: request_def)

lemma request_transport_error:
  assumes "Get_returns w q = Inl err"
  shows "request w a q = ((None, Some err), a, [Lock, http_Get q, Unlock])"
  using assms by (simp add: request_def)

text \<open>
  C3. For every fetch, by Forecast or by ForecastAtTime, in which the request is made,
  \<^verbatim>\<open>http.Get\<close> returns a response whose body is read, and the decoder returns an error for
  that body: the call returns a forecast pointer that is not nil, to whatever the decoder
  left in the forecast, together with the decoder's error.
\<close>

theorem parse_failure_returns_forecast_and_error:
  assumes fetch:
      "(check_excludes excludes = None \<and> r = Forecast w a lat lon excludes extendHourly \<and>
        q = Forecast_query w a lat lon excludes extendHourly) \<or>
       (check_excludes_at_time excludes = None \<and> r = ForecastAtTime w a lat lon d excludes \<and>
        fst (ForecastAtTime_query w a lat lon d excludes) = Returned q)"
    and get: "Get_returns w q = Inr response"
    and read: "Body response = Inr body"
    and parse: "Unmarshal_returns w body Forecast_zero = (f, Some e)"
  shows "fst r = Returned (Some f, Some e)"
  using fetch
proof (elim disjE conjE)
  assume "check_excludes excludes = None" "r = Forecast w a lat lon excludes extendHourly"
    "q = Forecast_query w a lat lon excludes extendHourly"
  then show ?thesis
    using request_parse_error [OF get read parse, of a]
    by (simp add: Forecast_valid)
next
  assume v: "check_excludes_at_time excludes = None"
    and r: "r = ForecastAtTime w a lat lon d excludes"
    and q: "fst (ForecastAtTime_query w a lat lon d excludes) = Returned q"
  obtain loads where "ForecastAtTime_query w a lat lon d excludes = (Returned q, loads)"
    using q by (cases "ForecastAtTime_query w a lat lon d excludes") simp
  then show ?thesis
    using request_parse_error [OF get read parse, of a] r
    by (simp add: ForecastAtTime_valid [OF v])
qed

theorem parse_failure_returns_forecast_and_error_witness:
  "check_excludes [] = None \<and> check_excludes_at_time [''flags''] = None \<and>
   Unmarshal_returns garbled_world ''{}'' Forecast_zero =
     (Forecast_zero\<lparr>Timezone := ''Europe/London''\<rparr>,
      Some (JSONError ''unexpected end of JSON input'')) \<and>
   fst (Forecast garbled_world (NewConnection ''k'') 0 0 [] True) =
     Returned (Some (Forecast_zero\<lparr>Timezone := ''Europe/London''\<rparr>),
               Some (JSONError ''unexpected end of JSON input'')) \<and>
   fst (ForecastAtTime garbled_world (NewConnection ''k'') 0 0 (date_string ''1367856000'')
          [''flags'']) =
     Returned (Some (Forecast_zero\<lparr>Timezone := ''Europe/London''\<rparr>),
               Some (JSONError ''unexpected end of JSON input''))"
proof -
  let ?a = "NewConnection ''k''"
  let ?resp = "\<lparr>Header = [''X-Forecast-API-Calls'' \<mapsto> ''42''], Body = Inr ''{}''\<rparr>"
  let ?q = "Forecast_query garbled_world ?a 0 0 [] True"
  let ?d = "date_string ''1367856000''"
  let ?q' = "baseURL @ ''/k/0.000000,0.000000,1367856000?units=auto&exclude=flags''"
  have get: "Get_returns garbled_world url = Inr ?resp" for url
    by (simp add: garbled_world_def example_world_def)
  have read: "Body ?resp = Inr ''{}''" by simp
  have parse: "Unmarshal_returns garbled_world ''{}'' Forecast_zero =
      (Forecast_zero\<lparr>Timezone := ''Europe/London''\<rparr>,
       Some (JSONError ''unexpected end of JSON input''))"
    by (simp add: garbled_world_def)
  have 1: "(check_excludes [] = None \<and>
        Forecast garbled_world ?a 0 0 [] True = Forecast garbled_world ?a 0 0 [] True \<and>
        ?q = Forecast_query garbled_world ?a 0 0 [] True) \<or>
       (check_excludes_at_time [] = None \<and>
        Forecast garbled_world ?a 0 0 [] True = ForecastAtTime garbled_world ?a 0 0 ?d [] \<and>
        fst (ForecastAtTime_query garbled_world ?a 0 0 ?d []) = Returned ?q)"
    by simp
  have 2: "(check_excludes [''flags''] = None \<and>
        ForecastAtTime garbled_world ?a 0 0 ?d [''flags''] =
          Forecast garbled_world ?a 0 0 [''flags''] True \<and>
        ?q' = Forecast_query garbled_world ?a 0 0 [''flags''] True) \<or>
       (check_excludes_at_time [''flags''] = None \<and>
        ForecastAtTime garbled_world ?a 0 0 ?d [''flags''] =
          ForecastAtTime garbled_world ?a 0 0 ?d [''flags''] \<and>
        fst (ForecastAtTime_query garbled_world ?a 0 0 ?d [''flags'']) = Returned ?q')"
    by (simp add: excludesSet_def ForecastAtTime_query_def NewConnection_def garbled_world_def
        example_world_def)
  show ?thesis
    using parse_failure_returns_forecast_and_error [OF 1 get read parse]
      parse_failure_returns_forecast_and_error [OF 2 get read parse] parse
    by (simp add: excludesSet_def)
qed

text \<open>
  C6. For every fetch, by Forecast or by ForecastAtTime, in which the request is made and
  \<^verbatim>\<open>http.Get\<close> returns an error: the call returns a nil forecast with that same error,
  hands nothing to the JSON decoder, and leaves the connection, its call counter
  included, as it was.
\<close>

theorem transport_failure:
  assumes fetch:
      "(check_excludes excludes = None \<and> r = Forecast w a lat lon excludes extendHourly \<and>
        q = Forecast_query w a lat lon excludes extendHourly) \<or>
       (check_excludes_at_time excludes = None \<and> r = ForecastAtTime w a lat lon d excludes \<and>
        fst (ForecastAtTime_query w a lat lon d excludes) = Returned q)"
    and get: "Get_returns w q = Inl err"
  shows "fst r = Returned (None, Some err) \<and>
         parsed_bodies (snd (snd r)) = [] \<and>
         fst (snd r) = a \<and>
         fst (APICalls (fst (snd r))) = fst (APICalls a)"
  using fetch
proof (elim disjE conjE)
  assume "check_excludes excludes = None" "r = Forecast w a lat lon excludes extendHourly"
    "q = Forecast_query w a lat lon excludes extendHourly"
  then show ?thesis
    using request_transport_error [OF get, of a]
    by (simp add: Forecast_valid)
next
  assume v: "check_excludes_at_time excludes = None"
    and r: "r = ForecastAtTime w a lat lon d excludes"
    and q: "fst (ForecastAtTime_query w a lat lon d excludes) = Returned q"
  obtain loads where l: "ForecastAtTime_query w a lat lon d excludes = (Returned q, loads)"
    using q by (cases "ForecastAtTime_query w a lat lon d excludes") simp
  have "parsed_bodies loads = []"
    using ForecastAtTime_query_no_parse [of w a lat lon d excludes] l by simp
  then show ?thesis
    using r
    by (simp add: ForecastAtTime_valid [OF v l] request_transport_error [OF get]
        parsed_bodies_append)
qed

theorem transport_failure_witness:
  "Get_returns offline_world (Forecast_query offline_world (NewConnection ''k'') 0 0 [] False) =
     Inl (TransportError ''connection refused'') \<and>
   fst (Forecast offline_world (NewConnection ''k'') 0 0 [] False) =
     Returned (None, Some (TransportError ''connection refused'')) \<and>
   parsed_bodies (snd (snd (Forecast offline_world (NewConnection ''k'') 0 0 [] False))) = [] \<and>
   fst (APICalls (fst (snd (Forecast offline_world (NewConnection ''k'') 0 0 [] False)))) = 0 \<and>
   fst (ForecastAtTime offline_world (NewConnection ''k'') 0 0 date_other []) =
     Returned (None, Some (TransportError ''connection refused'')) \<and>
   parsed_bodies (snd (snd (ForecastAtTime offline_world (NewConnection ''k'') 0 0 date_other []))) = []"
proof -
  let ?a = "NewConnection ''k''"
  let ?q = "Forecast_query offline_world ?a 0 0 [] False"
  have get: "Get_returns offline_world url = Inl (TransportError ''connection refused'')" for url
    by (simp add: offline_world_def)
  have 1: "(check_excludes [] = None \<and>
        Forecast offline_world ?a 0 0 [] False = Forecast offline_world ?a 0 0 [] False \<and>
        ?q = Forecast_query offline_world ?a 0 0 [] False) \<or>
       (check_excludes_at_time [] = None \<and>
        Forecast offline_world ?a 0 0 [] False = ForecastAtTime offline_world ?a 0 0 date_other [] \<and>
        fst (ForecastAtTime_query offline_world ?a 0 0 date_other []) = Returned ?q)"
    by simp
  have 2: "(check_excludes [] = None \<and>
        ForecastAtTime offline_world ?a 0 0 date_other [] = Forecast offline_world ?a 0 0 [] False \<and>
        [] = Forecast_query offline_world ?a 0 0 [] False) \<or>
       (check_excludes_at_time [] = None \<and>
        ForecastAtTime offline_world ?a 0 0 date_other [] =
          ForecastAtTime offline_world ?a 0 0 date_other [] \<and>
        fst (ForecastAtTime_query offline_world ?a 0 0 date_other []) = Returned [])"
    by (simp add: ForecastAtTime_query_def)
  show ?thesis
    using transport_failure [OF 1 get] transport_failure [OF 2 get] get [of ?q]
    by (simp add: APICalls_def NewConnection_def)
qed

text \<open>
  C9. For every call of Forecast that passes validation, exactly one URL is requested:
  the base endpoint, a slash, the API key, a slash, the latitude and the longitude as
  \<^verbatim>\<open>%f\<close> prints them with a comma between, then \<^verbatim>\<open>?units=\<close> with what Units returns
  for the connection, \<^verbatim>\<open>&exclude=\<close> with the exclude list joined by commas, and at the
  end \<^verbatim>\<open>&extend=hourly\<close> if and only if extendHourly is true.
\<close>

theorem Forecast_requested_url:
  assumes "check_excludes excludes = None"
  shows "network_calls (snd (snd (Forecast w a lat lon excludes extendHourly))) =
    [baseURL @ ''/'' @ apiKey a @ ''/'' @ fmt_f w lat @ '','' @ fmt_f w lon @
     ''?units='' @ fst (Units a) @ ''&exclude='' @ strings_Join excludes '','' @
     (if extendHourly then ''&extend=hourly'' else [])]"
  by (simp add: Forecast_valid [OF assms] network_calls_request Forecast_query_def Units_def)

theorem Forecast_requested_url_witness:
  "check_excludes ['''', ''daily''] = None \<and>
   network_calls (snd (snd (Forecast example_world (NewConnection ''k'') 0 0 ['''', ''daily''] True))) =
     [''https://api.forecast.io/forecast/k/0.000000,0.000000?units=auto&exclude=,daily&extend=hourly''] \<and>
   network_calls (snd (snd (Forecast example_world (NewConnection ''k'') 0 0 [''daily''] False))) =
     [''https://api.forecast.io/forecast/k/0.000000,0.000000?units=auto&exclude=daily'']"
proof -
  have 1: "check_excludes ['''', ''daily''] = None" by (simp add: excludesSet_def)
  have 2: "check_excludes [''daily''] = None" by (simp add: excludesSet_def)
  show ?thesis
    using 1 Forecast_requested_url [OF 1, of example_world "NewConnection ''k''" 0 0 True]
      Forecast_requested_url [OF 2, of example_world "NewConnection ''k''" 0 0 False]
    by (simp add: baseURL_def NewConnection_def example_world_def Units_def)
qed

lemma ForecastAtTime_int64_url:
  assumes "check_excludes_at_time excludes = None"
  shows "network_calls (snd (snd (ForecastAtTime w a lat lon (date_int64 n) excludes))) =
    [baseURL @ ''/'' @ apiKey a @ ''/'' @ fmt_f w lat @ '','' @ fmt_f w lon @ '','' @ fmt_d n @
     ''?units='' @ units a @ ''&exclude='' @ strings_Join excludes '','']"
proof -
  have l: "ForecastAtTime_query w a lat lon (date_int64 n) excludes =
    (Returned (baseURL @ ''/'' @ apiKey a @ ''/'' @ fmt_f w lat @ '','' @ fmt_f w lon @ '','' @
       fmt_d n @ ''?units='' @ units a @ ''&exclude='' @ strings_Join excludes '',''),
     [Load F_apiKey, Load F_units])"
    by (simp add: ForecastAtTime_query_def Let_def)
  show ?thesis
    by (simp add: ForecastAtTime_valid [OF assms l] network_calls_request)
qed

text \<open>
  C2, at the input where the code departs from it. When the date is a Go \<^verbatim>\<open>int\<close>, the
  case \<^verbatim>\<open>int, int64\<close> of the type switch is taken and its assertion \<^verbatim>\<open>date.(int64)\<close>
  panics: ForecastAtTime aborts before the lock is taken, requesting no URL. (For an
  \<^verbatim>\<open>int64\<close> the URL has the integer in decimal after the coordinates, as the lemma
  before this says.)
\<close>

theorem ForecastAtTime_int_panics:
  "ForecastAtTime w a lat lon (date_int n) [] =
     (Panicked ''interface conversion: interface {} is int, not int64'', a, [Load F_apiKey]) \<and>
   network_calls (snd (snd (ForecastAtTime w a lat lon (date_int n) []))) = []"
  by (simp add: ForecastAtTime_def ForecastAtTime_query_def)

text \<open>
  C10, at the input where the code departs from it. Forecast and ForecastAtTime read the
  units of the connection (and its key) for the query before they take the exclusive
  lock: these two loads are the events of the call that happen without the lock, while
  every event of SetUnits happens with it.
\<close>

theorem Forecast_reads_units_before_Lock:
  "unlocked_events False (snd (snd (Forecast w a lat lon [] extendHourly))) = [Load F_apiKey, Load F_units] \<and>
   unlocked_events False (snd (snd (SetUnits a u))) = [] \<and>
   unlocked_events False (snd (snd (ForecastAtTime w a lat lon (date_int64 n) []))) =
     [Load F_apiKey, Load F_units]"
  by (simp add: Forecast_def ForecastAtTime_def ForecastAtTime_query_def Let_def SetUnits_def
      request_def split: sum.splits prod.splits)

subsection \<open>The call counter\<close>

text \<open>
  \<^verbatim>\<open>strconv.Atoi\<close> against the decimal integers of the specification: the digits are the
  ten characters 0 to 9; on a string of digits whose value fits 64 bits the loop of
  \<^verbatim>\<open>ParseUint\<close> returns the value; on a string of at most 19 bytes with a byte that is not
  a digit it returns a syntax error, since nothing that short overflows before the bad
  byte is met.
\<close>

lemma digit_val_is_digit:
  "digit_val c = (if is_digit c then Some (of_char c - 48) else None)"
proof (cases "is_digit c")
  case True
  then show ?thesis by (auto simp: is_digit_def digit_val_def)
next
  case False
  have "\<not> (48 \<le> (of_char c :: nat) \<and> (of_char c :: nat) \<le> 57)"
  proof
    assume "48 \<le> (of_char c :: nat) \<and> (of_char c :: nat) \<le> 57"
    then have "(of_char c :: nat) \<in> {48, 49, 50, 51, 52, 53, 54, 55, 56, 57}" by (simp, arith)
    then have "(of_char c :: nat) \<in> of_char ` set ''0123456789''" by simp
    then have "c \<in> set ''0123456789''"
      by (auto simp del: set_simps list.set)
    with False show False by (simp add: is_digit_def)
  qed
  with False show ?thesis by (simp add: digit_val_def)
qed

lemma is_digit_le_9: "is_digit c \<Longrightarrow> (of_char c :: nat) - 48 \<le> 9"
  by (auto simp: is_digit_def)



lemma foldl_decimal_step_ge: "acc \<le> foldl decimal_step acc cs"
proof (induction cs arbitrary: acc)
  case Nil
  show ?case by simp
next
  case (Cons c cs)
  have "acc \<le> decimal_step acc c" by (simp add: decimal_step_def)
  also have "\<dots> \<le> foldl decimal_step (decimal_step acc c) cs" by (rule Cons.IH)
  finally show ?case by simp
qed

lemma ParseUint_loop_digits:
  "list_all is_digit cs \<Longrightarrow> foldl decimal_step acc cs \<le> maxUint64 \<Longrightarrow>
   ParseUint_loop cs acc = (foldl decimal_step acc cs, None)"
proof (induction cs arbitrary: acc)
  case Nil
  show ?case by simp
next
  case (Cons c cs)
  have d: "is_digit c" and ds: "list_all is_digit cs" using Cons.prems(1) by simp_all
  have le: "decimal_step acc c \<le> maxUint64"
    using foldl_decimal_step_ge [of "decimal_step acc c" cs] Cons.prems(2) by simp
  then have small: "\<not> acc \<ge> maxUint64 div 10 + 1"
    by (simp add: decimal_step_def maxUint64_def)
  have "ParseUint_loop cs (decimal_step acc c) = (foldl decimal_step (decimal_step acc c) cs, None)"
    using Cons.IH [OF ds] Cons.prems(2) by simp
  moreover have "ParseUint_loop (c # cs) acc = ParseUint_loop cs (decimal_step acc c)"
    using d le small by (simp add: digit_val_is_digit decimal_step_def)
  ultimately show ?case by simp
qed

lemma ParseUint_loop_syntax:
  "\<not> list_all is_digit cs \<Longrightarrow> acc < 10 ^ k \<Longrightarrow> k + length cs \<le> 19 \<Longrightarrow>
   ParseUint_loop cs acc = (0, Some ErrSyntax)"
proof (induction cs arbitrary: acc k)
  case Nil
  then show ?case by simp
next
  case (Cons c cs)
  show ?case
  proof (cases "is_digit c")
    case False
    then show ?thesis by (simp add: digit_val_is_digit)
  next
    case True
    have k: "k \<le> 18" using Cons.prems(3) by simp
    have "(10::nat) ^ k \<le> 10 ^ 18" using k by (intro power_increasing) simp_all
    then have acc: "acc < 10 ^ 18" using Cons.prems(2) by simp
    have d9: "(of_char c :: nat) - 48 \<le> 9" using True by (rule is_digit_le_9)
    have "acc * 10 + (of_char c - 48) < (acc + 1) * 10" using d9 by simp
    also have "\<dots> \<le> 10 ^ k * 10" using Cons.prems(2) by (intro mult_right_mono) simp_all
    finally have next_small: "acc * 10 + (of_char c - 48) < 10 ^ Suc k" by simp
    have "(10::nat) ^ Suc k \<le> 10 ^ 19" using k by (intro power_increasing) simp_all
    with next_small have le: "acc * 10 + (of_char c - 48) < 10 ^ 19" by simp
    have rest: "\<not> list_all is_digit cs" using Cons.prems(1) True by simp
    have "ParseUint_loop cs (acc * 10 + (of_char c - 48)) = (0, Some ErrSyntax)"
      using Cons.IH [OF rest next_small] Cons.prems(3) by simp
    then show ?thesis
      using True acc le by (simp add: digit_val_is_digit maxUint64_def)
  qed
qed


lemma sint_word_of_int_64:
  "- (2 ^ 63) \<le> n \<Longrightarrow> n < 2 ^ 63 \<Longrightarrow> sint (word_of_int n :: 64 word) = n"
  by (simp add: sint_sbintrunc' signed_take_bit_int_eq_self)

lemma ParseInt_signed_digits:
  assumes "decimal_digits cs = Some m"
  shows "\<not> neg \<Longrightarrow> m < 2 ^ 63 \<Longrightarrow> ParseInt_signed neg cs = (of_nat m, None)"
    and "neg \<Longrightarrow> m \<le> 2 ^ 63 \<Longrightarrow> ParseInt_signed neg cs = (- of_nat m, None)"
proof -
  have ne: "cs \<noteq> []" and ds: "list_all is_digit cs" and m: "m = foldl decimal_step 0 cs"
    using assms by (auto simp: decimal_digits_def split: if_splits)
  have loop: "m \<le> maxUint64 \<Longrightarrow> ParseUint cs = (m, None)"
    using ParseUint_loop_digits [OF ds, of 0] ne m by (simp add: ParseUint_def)
  show "\<not> neg \<Longrightarrow> m < 2 ^ 63 \<Longrightarrow> ParseInt_signed neg cs = (of_nat m, None)"
    using loop by (simp add: ParseInt_signed_def maxUint64_def)
  show "neg \<Longrightarrow> m \<le> 2 ^ 63 \<Longrightarrow> ParseInt_signed neg cs = (- of_nat m, None)"
    using loop by (simp add: ParseInt_signed_def maxUint64_def)
qed

lemma ParseInt_signed_not_digits:
  assumes "decimal_digits cs = None" and "length cs \<le> 19"
  shows "ParseInt_signed neg cs = (0, Some ErrSyntax)"
proof (cases "cs = []")
  case True
  then show ?thesis by (simp add: ParseInt_signed_def ParseUint_def ErrSyntax_def ErrRange_def)
next
  case False
  then have "\<not> list_all is_digit cs"
    using assms(1) by (simp add: decimal_digits_def split: if_splits)
  then have "ParseUint_loop cs 0 = (0, Some ErrSyntax)"
    using ParseUint_loop_syntax [of cs 0 0] assms(2) by simp
  then show ?thesis
    using False by (simp add: ParseInt_signed_def ParseUint_def ErrSyntax_def ErrRange_def)
qed

lemma Atoi_decimal_integer:
  assumes "decimal_integer v = Some n" and "- (2 ^ 63) \<le> n" and "n < 2 ^ 63"
  shows "strconv_Atoi v = (word_of_int n, None)"
proof (cases v)
  case Nil
  with assms(1) show ?thesis by (simp add: decimal_integer_def)
next
  case (Cons c cs)
  consider (plus) "c = CHR ''+''" | (minus) "c = CHR ''-''" | (none) "c \<noteq> CHR ''+''" "c \<noteq> CHR ''-''"
    by blast
  then show ?thesis
  proof cases
    case plus
    then obtain m where m: "decimal_digits cs = Some m" "n = int m"
      using assms(1) Cons by (auto simp: decimal_integer_def)
    then have "m < 2 ^ 63" using assms(3) by simp
    then show ?thesis
      using ParseInt_signed_digits(1) [OF m(1), of False] m(2) Cons plus
      by (simp add: strconv_Atoi_def)
  next
    case minus
    then obtain m where m: "decimal_digits cs = Some m" "n = - int m"
      using assms(1) Cons by (auto simp: decimal_integer_def)
    then have "m \<le> 2 ^ 63" using assms(2) by simp
    then show ?thesis
      using ParseInt_signed_digits(2) [OF m(1), of True] m(2) Cons minus
      by (simp add: strconv_Atoi_def)
  next
    case none
    then obtain m where m: "decimal_digits v = Some m" "n = int m"
      using assms(1) Cons by (auto simp: decimal_integer_def)
    then have "m < 2 ^ 63" using assms(3) by simp
    then show ?thesis
      using ParseInt_signed_digits(1) [OF m(1), of False] m(2) Cons none
      by (simp add: strconv_Atoi_def)
  qed
qed

lemma Atoi_not_decimal_integer:
  assumes "decimal_integer v = None" and "length v \<le> 19"
  shows "strconv_Atoi v = (0, Some ErrSyntax)"
proof (cases v)
  case Nil
  then show ?thesis by (simp add: strconv_Atoi_def)
next
  case (Cons c cs)
  have len: "length cs \<le> 19" using assms(2) Cons by simp
  consider (plus) "c = CHR ''+''" | (minus) "c = CHR ''-''" | (none) "c \<noteq> CHR ''+''" "c \<noteq> CHR ''-''"
    by blast
  then show ?thesis
  proof cases
    case plus
    then have "decimal_digits cs = None" using assms(1) Cons by (simp add: decimal_integer_def)
    then show ?thesis
      using ParseInt_signed_not_digits [OF _ len, of False] Cons plus
      by (simp add: strconv_Atoi_def)
  next
    case minus
    then have "decimal_digits cs = None" using assms(1) Cons by (simp add: decimal_integer_def)
    then show ?thesis
      using ParseInt_signed_not_digits [OF _ len, of True] Cons minus
      by (simp add: strconv_Atoi_def)
  next
    case none
    then have "decimal_digits v = None" using assms(1) Cons by (simp add: decimal_integer_def)
    then show ?thesis
      using ParseInt_signed_not_digits [OF _ assms(2), of False] Cons none
      by (simp add: strconv_Atoi_def)
  qed
qed

lemma request_counter:
  assumes "Get_returns w q = Inr response" and "Body response = Inr body"
  shows "fst (snd (request w a q)) =
    a\<lparr>apiCalls := fst (strconv_Atoi (Header_Get (Header response) ''X-Forecast-API-Calls''))\<rparr>"
  using assms by (simp add: request_def split: prod.splits)

lemma fetch_counter:
  assumes fetch:
      "(check_excludes excludes = None \<and> r = Forecast w a lat lon excludes extendHourly \<and>
        q = Forecast_query w a lat lon excludes extendHourly) \<or>
       (check_excludes_at_time excludes = None \<and> r = ForecastAtTime w a lat lon d excludes \<and>
        fst (ForecastAtTime_query w a lat lon d excludes) = Returned q)"
    and get: "Get_returns w q = Inr response"
    and read: "Body response = Inr body"
  shows "fst (APICalls (fst (snd r))) =
    fst (strconv_Atoi (Header_Get (Header response) ''X-Forecast-API-Calls''))"
  using fetch
proof (elim disjE conjE)
  assume "check_excludes excludes = None" "r = Forecast w a lat lon excludes extendHourly"
    "q = Forecast_query w a lat lon excludes extendHourly"
  then show ?thesis
    using request_counter [OF get read, of a]
    by (simp add: Forecast_valid APICalls_def)
next
  assume v: "check_excludes_at_time excludes = None"
    and r: "r = ForecastAtTime w a lat lon d excludes"
    and q: "fst (ForecastAtTime_query w a lat lon d excludes) = Returned q"
  obtain loads where "ForecastAtTime_query w a lat lon d excludes = (Returned q, loads)"
    using q by (cases "ForecastAtTime_query w a lat lon d excludes") simp
  then show ?thesis
    using request_counter [OF get read, of a] r
    by (simp add: ForecastAtTime_valid [OF v] APICalls_def)
qed

text \<open>
  C1, as the code has it. For every fetch, by Forecast or by ForecastAtTime, in which the
  request is made and the body of the response is read: when the header
  X-Forecast-API-Calls holds a decimal integer \<open>n\<close> in the range of \<^verbatim>\<open>int\<close>, APICalls on
  the connection then returns \<open>n\<close>; when the header is missing, or holds at most 19 bytes
  that are not a decimal integer, APICalls then returns zero, whatever it returned before.
\<close>

theorem call_counter_after_fetch:
  assumes fetch:
      "(check_excludes excludes = None \<and> r = Forecast w a lat lon excludes extendHourly \<and>
        q = Forecast_query w a lat lon excludes extendHourly) \<or>
       (check_excludes_at_time excludes = None \<and> r = ForecastAtTime w a lat lon d excludes \<and>
        fst (ForecastAtTime_query w a lat lon d excludes) = Returned q)"
    and get: "Get_returns w q = Inr response"
    and read: "Body response = Inr body"
  shows "(\<forall>v n. Header response ''X-Forecast-API-Calls'' = Some v \<and>
            decimal_integer v = Some n \<and> - (2 ^ 63) \<le> n \<and> n < 2 ^ 63 \<longrightarrow>
            sint (fst (APICalls (fst (snd r)))) = n) \<and>
         (Header response ''X-Forecast-API-Calls'' = None \<or>
          (\<exists>v. Header response ''X-Forecast-API-Calls'' = Some v \<and>
            decimal_integer v = None \<and> length v \<le> 19) \<longrightarrow>
          fst (APICalls (fst (snd r))) = 0)"
proof (intro conjI allI impI)
  fix v n
  assume "Header response ''X-Forecast-API-Calls'' = Some v \<and>
    decimal_integer v = Some n \<and> - (2 ^ 63) \<le> n \<and> n < 2 ^ 63"
  then have h: "Header_Get (Header response) ''X-Forecast-API-Calls'' = v"
    and v: "decimal_integer v = Some n" and lo: "- (2 ^ 63) \<le> n" and hi: "n < 2 ^ 63"
    by (simp_all add: Header_Get_def)
  show "sint (fst (APICalls (fst (snd r)))) = n"
    by (simp add: fetch_counter [OF fetch get read] h Atoi_decimal_integer [OF v lo hi]
        sint_word_of_int_64 [OF lo hi])
next
  assume "Header response ''X-Forecast-API-Calls'' = None \<or>
    (\<exists>v. Header response ''X-Forecast-API-Calls'' = Some v \<and>
      decimal_integer v = None \<and> length v \<le> 19)"
  then have "strconv_Atoi (Header_Get (Header response) ''X-Forecast-API-Calls'') =
    (0, Some ErrSyntax)"
  proof (elim disjE exE conjE)
    assume "Header response ''X-Forecast-API-Calls'' = None"
    then show ?thesis by (simp add: Header_Get_def strconv_Atoi_def)
  next
    fix v
    assume "Header response ''X-Forecast-API-Calls'' = Some v"
      and "decimal_integer v = None" and "length v \<le> 19"
    then show ?thesis by (simp add: Header_Get_def Atoi_not_decimal_integer)
  qed
  then show "fst (APICalls (fst (snd r))) = 0"
    by (simp add: fetch_counter [OF fetch get read])
qed

theorem call_counter_after_fetch_witness:
  "decimal_integer ''42'' = Some 42 \<and>
   sint (fst (APICalls (fst (snd (Forecast example_world (NewConnection ''k'') 0 0 [] False))))) = 42 \<and>
   fst (APICalls (fst (snd (Forecast no_header_world (NewConnection ''k'') 0 0 [] False)))) = 0"
proof -
  let ?a = "NewConnection ''k''"
  let ?resp = "\<lparr>Header = [''X-Forecast-API-Calls'' \<mapsto> ''42''], Body = Inr ''{}''\<rparr>"
  let ?none = "\<lparr>Header = Map.empty, Body = Inr ''{}''\<rparr>"
  have get: "Get_returns example_world url = Inr ?resp" for url
    by (simp add: example_world_def)
  have get': "Get_returns no_header_world url = Inr ?none" for url
    by (simp add: no_header_world_def)
  have read: "Body ?resp = Inr ''{}''" "Body ?none = Inr ''{}''" by simp_all
  have 1: "(check_excludes [] = None \<and>
        Forecast example_world ?a 0 0 [] False = Forecast example_world ?a 0 0 [] False \<and>
        Forecast_query example_world ?a 0 0 [] False = Forecast_query example_world ?a 0 0 [] False) \<or>
       (check_excludes_at_time [] = None \<and>
        Forecast example_world ?a 0 0 [] False = ForecastAtTime example_world ?a 0 0 date_other [] \<and>
        fst (ForecastAtTime_query example_world ?a 0 0 date_other []) =
          Returned (Forecast_query example_world ?a 0 0 [] False))"
    by simp
  have 2: "(check_excludes [] = None \<and>
        Forecast no_header_world ?a 0 0 [] False = Forecast no_header_world ?a 0 0 [] False \<and>
        Forecast_query no_header_world ?a 0 0 [] False = Forecast_query no_header_world ?a 0 0 [] False) \<or>
       (check_excludes_at_time [] = None \<and>
        Forecast no_header_world ?a 0 0 [] False = ForecastAtTime no_header_world ?a 0 0 date_other [] \<and>
        fst (ForecastAtTime_query no_header_world ?a 0 0 date_other []) =
          Returned (Forecast_query no_header_world ?a 0 0 [] False))"
    by simp
  have d: "decimal_integer ''42'' = Some 42"
    by (simp add: decimal_integer_def decimal_digits_def decimal_step_def is_digit_def)
  show ?thesis
    using d call_counter_after_fetch [OF 1 get read(1)] call_counter_after_fetch [OF 2 get' read(2)]
    by simp
qed

text \<open>
  As the claim states it, it fails: a connection whose counter a first fetch has set to
  42 has the counter zero, not 42, after a second fetch whose response lacks the header.
\<close>

theorem call_counter_reset_counterexample:
  "fst (APICalls (fst (snd (Forecast example_world (NewConnection ''k'') 0 0 [] False)))) = 42 \<and>
   fst (APICalls (fst (snd (Forecast no_header_world
     (fst (snd (Forecast example_world (NewConnection ''k'') 0 0 [] False))) 0 0 [] False)))) = 0"
  by (simp add: Forecast_def request_def example_world_def no_header_world_def Header_Get_def
      strconv_Atoi_def ParseInt_signed_def ParseUint_def digit_val_def maxUint64_def
      APICalls_def NewConnection_def ErrSyntax_def ErrRange_def)

end
